theory Spec2Isabelle
  imports Main "HOL-Library.Word"
begin

section \<open>Go values and their printed form\<close>

text \<open>
  Go's \<^verbatim>\<open>uint\<close> is taken at 64 bits; a container port of the cluster API is an
  \<^verbatim>\<open>int32\<close>.
\<close>

type_synonym uint = "64 word"
type_synonym int32 = "32 word"

definition digit :: "nat \<Rightarrow> char" where
  "digit n = ''0123456789'' ! n"

text \<open>The decimal numeral of a natural number, most significant digit first.\<close>

fun decimal :: "nat \<Rightarrow> string" where
  "decimal n = (if n < 10 then [digit n] else decimal (n div 10) @ [digit (n mod 10)])"

declare decimal.simps [simp del]

text \<open>\<^verbatim>\<open>fmt.Sprint\<close> of a \<^verbatim>\<open>uint\<close> (the verb \<^verbatim>\<open>%d\<close> prints the same).\<close>

definition Sprint_uint :: "uint \<Rightarrow> string" where
  "Sprint_uint n = decimal (unat n)"

text \<open>\<^verbatim>\<open>fmt.Sprint\<close> of an \<^verbatim>\<open>int32\<close>: a minus sign before a negative value.\<close>

definition Sprint_int32 :: "int32 \<Rightarrow> string" where
  "Sprint_int32 n = (if sint n < 0 then ''-'' @ decimal (nat (- sint n)) else decimal (nat (sint n)))"

text \<open>
  A \<^verbatim>\<open>float32\<close> is represented by the result of the shortest-digits conversion of
  Go's \<^verbatim>\<open>strconv\<close>, which determines the value: the sign, the decimal digits \<open>d\<close>
  (no leading and no trailing zero; none at all for zero) and the position \<open>dp\<close> of
  the decimal point, the magnitude being \<open>0.d\<close> times ten to the power \<open>dp\<close>. So
  \<open>Dec False [1] 0\<close> is 0.1 and \<open>Dec False [5] 3\<close> is 500. The remaining values are
  the two infinities and NaN.
\<close>

datatype float32 = Dec bool "nat list" int | PosInf | NegInf | NaN

text \<open>The comparison \<^verbatim>\<open>f > 0\<close>; every comparison with NaN is false.\<close>

fun gt0 :: "float32 \<Rightarrow> bool" where
  "gt0 (Dec neg d dp) = (\<not> neg \<and> d \<noteq> [])"
| "gt0 PosInf = True"
| "gt0 NegInf = False"
| "gt0 NaN = False"

text \<open>\<^verbatim>\<open>strconv\<close>'s \<^verbatim>\<open>%e\<close> form with all the digits: \<^verbatim>\<open>d.ddde+XX\<close>.\<close>

definition fmtE :: "bool \<Rightarrow> nat list \<Rightarrow> int \<Rightarrow> string" where
  "fmtE neg d dp =
    (let exp = (if d = [] then 0 else dp - 1);
         e = nat \<bar>exp\<bar>
     in (if neg then ''-'' else '''')
        @ [case d of [] \<Rightarrow> CHR ''0'' | x # _ \<Rightarrow> digit x]
        @ (if 1 < length d then ''.'' @ map digit (tl d) else '''')
        @ ''e''
        @ (if exp < 0 then ''-'' else ''+'')
        @ (if e < 10 then [CHR ''0'', digit e]
           else if e < 100 then [digit (e div 10), digit (e mod 10)]
           else [digit (e div 100), digit ((e div 10) mod 10), digit (e mod 10)]))"

text \<open>\<^verbatim>\<open>strconv\<close>'s \<^verbatim>\<open>%f\<close> form with as many decimals as there are digits left.\<close>

definition fmtF :: "bool \<Rightarrow> nat list \<Rightarrow> int \<Rightarrow> string" where
  "fmtF neg d dp =
    (let prec = nat (max (int (length d) - dp) 0)
     in (if neg then ''-'' else '''')
        @ (if 0 < dp
           then map digit (take (nat dp) d) @ replicate (nat dp - length d) (CHR ''0'')
           else ''0'')
        @ (if 0 < prec
           then ''.'' @ map (\<lambda>i. let j = dp + int i
                                 in if 0 \<le> j \<and> j < int (length d) then digit (d ! nat j)
                                    else CHR ''0'') [0..<prec]
           else ''''))"

text \<open>
  \<^verbatim>\<open>fmt.Sprint\<close> of a \<^verbatim>\<open>float32\<close> is the verb \<^verbatim>\<open>%v\<close>, that is \<^verbatim>\<open>%g\<close> with the
  shortest precision: the \<^verbatim>\<open>%e\<close> form when the decimal exponent \<open>dp - 1\<close> is
  below -4 or at least 6, the \<^verbatim>\<open>%f\<close> form otherwise.
\<close>

fun Sprint_float32 :: "float32 \<Rightarrow> string" where
  "Sprint_float32 (Dec neg d dp) =
     (if dp - 1 < - 4 \<or> 6 \<le> dp - 1 then fmtE neg d dp else fmtF neg d dp)"
| "Sprint_float32 PosInf = ''+Inf''"
| "Sprint_float32 NegInf = ''-Inf''"
| "Sprint_float32 NaN = ''NaN''"

section \<open>Fault descriptors and disruption options\<close>

text \<open>
  The declarations of \<^verbatim>\<open>HTTPFault\<close> and \<^verbatim>\<open>GrpcFault\<close> are not among the sources
  at hand. Modelled from the spec: the fields are those of its data model, under the
  names the command builders and the tests use; ports, delays and the HTTP error code
  are \<^verbatim>\<open>uint\<close> (the port is compared with a \<^verbatim>\<open>uint\<close>), the error rate is a
  float, the gRPC status code a small signed integer.
\<close>

record HTTPFault =
  Port :: uint
  AverageDelay :: uint
  DelayVariation :: uint
  ErrorRate :: float32
  ErrorCode :: uint
  ErrorBody :: string
  Exclude :: string

record GrpcFault =
  Port :: uint
  AverageDelay :: uint
  DelayVariation :: uint
  ErrorRate :: float32
  StatusCode :: int32
  StatusMessage :: string
  Exclude :: string

text \<open>The options of both protocols (pod.go).\<close>

record HTTPDisruptionOptions =
  ProxyPort :: uint
  Iface :: string

record GrpcDisruptionOptions =
  ProxyPort :: uint
  Iface :: string

section \<open>The command builders (cmd\_builders.go)\<close>

text \<open>
  Each \<^verbatim>\<open>cmd = append(cmd, ...)\<close> of the source is one rebinding of \<open>cmd\<close>, in the
  order of the source.
\<close>

definition buildGrpcFaultCmd :: "GrpcFault \<Rightarrow> uint \<Rightarrow> GrpcDisruptionOptions \<Rightarrow> string list" where
  "buildGrpcFaultCmd fault duration options =
    (let cmd = [''xk6-disruptor-agent'', ''grpc'', ''-d'', Sprint_uint duration @ ''s''];
         cmd = (if 0 < GrpcFault.AverageDelay fault
                then cmd @ [''-a'', Sprint_uint (GrpcFault.AverageDelay fault),
                            ''-v'', Sprint_uint (GrpcFault.DelayVariation fault)]
                else cmd);
         cmd = (if gt0 (GrpcFault.ErrorRate fault)
                then (let cmd = cmd @ [''-s'', Sprint_int32 (StatusCode fault),
                                       ''-r'', Sprint_float32 (GrpcFault.ErrorRate fault)]
                      in if StatusMessage fault \<noteq> ''''
                         then cmd @ [''-m'', StatusMessage fault] else cmd)
                else cmd);
         cmd = (if GrpcFault.Port fault \<noteq> 0
                then cmd @ [''-t'', Sprint_uint (GrpcFault.Port fault)] else cmd);
         cmd = (if 0 < length (GrpcFault.Exclude fault)
                then cmd @ [''-x'', GrpcFault.Exclude fault] else cmd);
         cmd = (if GrpcDisruptionOptions.ProxyPort options \<noteq> 0
                then cmd @ [''-p'', Sprint_uint (GrpcDisruptionOptions.ProxyPort options)]
                else cmd);
         cmd = (if GrpcDisruptionOptions.Iface options \<noteq> ''''
                then cmd @ [''-i'', GrpcDisruptionOptions.Iface options] else cmd)
     in cmd)"

definition buildHTTPFaultCmd :: "HTTPFault \<Rightarrow> uint \<Rightarrow> HTTPDisruptionOptions \<Rightarrow> string list" where
  "buildHTTPFaultCmd fault duration options =
    (let cmd = [''xk6-disruptor-agent'', ''http'', ''-d'', Sprint_uint duration @ ''s''];
         cmd = (if 0 < HTTPFault.AverageDelay fault
                then cmd @ [''-a'', Sprint_uint (HTTPFault.AverageDelay fault),
                            ''-v'', Sprint_uint (HTTPFault.DelayVariation fault)]
                else cmd);
         cmd = (if gt0 (HTTPFault.ErrorRate fault)
                then (let cmd = cmd @ [''-e'', Sprint_uint (ErrorCode fault),
                                       ''-r'', Sprint_float32 (HTTPFault.ErrorRate fault)]
                      in if ErrorBody fault \<noteq> ''''
                         then cmd @ [''-b'', ErrorBody fault] else cmd)
                else cmd);
         cmd = (if HTTPFault.Port fault \<noteq> 0
                then cmd @ [''-t'', Sprint_uint (HTTPFault.Port fault)] else cmd);
         cmd = (if 0 < length (HTTPFault.Exclude fault)
                then cmd @ [''-x'', HTTPFault.Exclude fault] else cmd);
         cmd = (if HTTPDisruptionOptions.ProxyPort options \<noteq> 0
                then cmd @ [''-p'', Sprint_uint (HTTPDisruptionOptions.ProxyPort options)]
                else cmd);
         cmd = (if HTTPDisruptionOptions.Iface options \<noteq> ''''
                then cmd @ [''-i'', HTTPDisruptionOptions.Iface options] else cmd)
     in cmd)"

text \<open>
  The argument vector of the HTTP command as the specification words it: the fixed head,
  then one optional block per clause, in the order of the clauses, and nothing else.
\<close>

definition http_argv_spec :: "HTTPFault \<Rightarrow> uint \<Rightarrow> HTTPDisruptionOptions \<Rightarrow> string list" where
  "http_argv_spec fault duration options =
     [''xk6-disruptor-agent'', ''http'', ''-d'', Sprint_uint duration @ ''s'']
     @ (if 0 < HTTPFault.AverageDelay fault
        then [''-a'', Sprint_uint (HTTPFault.AverageDelay fault),
              ''-v'', Sprint_uint (HTTPFault.DelayVariation fault)]
        else [])
     @ (if gt0 (HTTPFault.ErrorRate fault)
        then [''-e'', Sprint_uint (ErrorCode fault),
              ''-r'', Sprint_float32 (HTTPFault.ErrorRate fault)]
             @ (if ErrorBody fault \<noteq> '''' then [''-b'', ErrorBody fault] else [])
        else [])
     @ (if HTTPFault.Port fault \<noteq> 0 then [''-t'', Sprint_uint (HTTPFault.Port fault)] else [])
     @ (if HTTPFault.Exclude fault \<noteq> '''' then [''-x'', HTTPFault.Exclude fault] else [])
     @ (if HTTPDisruptionOptions.ProxyPort options \<noteq> 0
        then [''-p'', Sprint_uint (HTTPDisruptionOptions.ProxyPort options)] else [])
     @ (if HTTPDisruptionOptions.Iface options \<noteq> ''''
        then [''-i'', HTTPDisruptionOptions.Iface options] else [])"

text \<open>The descriptors and options of the literal scenarios: every field not named is unset.\<close>

definition tenth :: float32 where
  "tenth = Dec False [1] 0"

definition http_fault_500 :: HTTPFault where
  "http_fault_500 =
     \<lparr>HTTPFault.Port = 0, AverageDelay = 0, DelayVariation = 0, ErrorRate = tenth,
      ErrorCode = 500, ErrorBody = '''', Exclude = ''''\<rparr>"

definition grpc_fault_14 :: GrpcFault where
  "grpc_fault_14 =
     \<lparr>GrpcFault.Port = 0, AverageDelay = 0, DelayVariation = 0, ErrorRate = tenth,
      StatusCode = 14, StatusMessage = ''internal error'', Exclude = ''''\<rparr>"

definition no_http_options :: HTTPDisruptionOptions where
  "no_http_options = \<lparr>HTTPDisruptionOptions.ProxyPort = 0, Iface = ''''\<rparr>"

definition no_grpc_options :: GrpcDisruptionOptions where
  "no_grpc_options = \<lparr>GrpcDisruptionOptions.ProxyPort = 0, Iface = ''''\<rparr>"

section \<open>Printed forms at the values of the scenarios\<close>

lemma Sprint_uint_60: "Sprint_uint 60 = ''60''"
  by (simp add: Sprint_uint_def decimal.simps digit_def)

lemma Sprint_uint_500: "Sprint_uint 500 = ''500''"
  by (simp add: Sprint_uint_def decimal.simps digit_def)

lemma Sprint_int32_14: "Sprint_int32 14 = ''14''"
  by (simp add: Sprint_int32_def decimal.simps digit_def)

lemma Sprint_float32_tenth: "Sprint_float32 tenth = ''0.1''"
  by (simp add: tenth_def fmtF_def digit_def)

lemma gt0_tenth: "gt0 tenth"
  by (simp add: tenth_def)

section \<open>The command builders: claims\<close>

text \<open>
  C1, as amended. For the HTTP fault with error rate 0.1 and error code 500, every other
  field unset, a duration of 60 seconds and empty options, the builder returns the vector
  \<^verbatim>\<open>xk6-disruptor-agent http -d 60s -e 500 -r 0.1\<close>: the error code comes before
  the error rate.
\<close>

theorem C1_http_error_argv:
  "buildHTTPFaultCmd http_fault_500 60 no_http_options =
     [''xk6-disruptor-agent'', ''http'', ''-d'', ''60s'', ''-e'', ''500'', ''-r'', ''0.1'']"
  by (simp add: buildHTTPFaultCmd_def http_fault_500_def no_http_options_def
      Sprint_uint_60 Sprint_uint_500 Sprint_float32_tenth gt0_tenth)

text \<open>
  C1 as stated fails: the vector is not
  \<^verbatim>\<open>xk6-disruptor-agent http -d 60s -r 0.1 -e 500\<close>.
\<close>

theorem C1_stated_order_counterexample:
  "buildHTTPFaultCmd http_fault_500 60 no_http_options \<noteq>
     [''xk6-disruptor-agent'', ''http'', ''-d'', ''60s'', ''-r'', ''0.1'', ''-e'', ''500'']"
  by (simp add: buildHTTPFaultCmd_def http_fault_500_def no_http_options_def
      Sprint_uint_60 Sprint_uint_500 Sprint_float32_tenth gt0_tenth)

text \<open>
  C3. For every HTTP fault, duration and options, the vector \<open>buildHTTPFaultCmd\<close>
  returns is the head \<^verbatim>\<open>xk6-disruptor-agent http -d <duration>s\<close> followed by, in
  this order and with nothing else: the delay block iff the average delay is positive;
  the error block \<^verbatim>\<open>-e <code> -r <rate>\<close> iff the error rate is positive, with
  \<^verbatim>\<open>-b <body>\<close> after it iff the body is not empty; \<^verbatim>\<open>-t <port>\<close> iff the port
  is not zero; \<^verbatim>\<open>-x <exclude>\<close> iff the exclude list is not empty;
  \<^verbatim>\<open>-p <proxyPort>\<close> iff the proxy port is not zero; \<^verbatim>\<open>-i <iface>\<close> iff the
  interface is not empty.
\<close>

theorem C3_http_argv_layout:
  "buildHTTPFaultCmd fault duration options = http_argv_spec fault duration options"
  by (simp add: buildHTTPFaultCmd_def http_argv_spec_def Let_def)

text \<open>
  C8, as amended. For the gRPC fault with error rate 0.1, status code 14 and status
  message \<^verbatim>\<open>internal error\<close>, every other field unset, a duration of 60 seconds and
  empty options, the builder returns the vector
  \<^verbatim>\<open>xk6-disruptor-agent grpc -d 60s -s 14 -r 0.1 -m\<close> and then the message as one
  argument: the status code comes before the error rate.
\<close>

theorem C8_grpc_error_argv:
  "buildGrpcFaultCmd grpc_fault_14 60 no_grpc_options =
     [''xk6-disruptor-agent'', ''grpc'', ''-d'', ''60s'', ''-s'', ''14'', ''-r'', ''0.1'',
      ''-m'', ''internal error'']"
  by (simp add: buildGrpcFaultCmd_def grpc_fault_14_def no_grpc_options_def
      Sprint_uint_60 Sprint_int32_14 Sprint_float32_tenth gt0_tenth)

text \<open>
  C8 as stated fails: the vector is not
  \<^verbatim>\<open>xk6-disruptor-agent grpc -d 60s -r 0.1 -s 14 -m internal error\<close>, whether the
  message is read as one argument or as two.
\<close>

theorem C8_stated_order_counterexample:
  "buildGrpcFaultCmd grpc_fault_14 60 no_grpc_options \<noteq>
     [''xk6-disruptor-agent'', ''grpc'', ''-d'', ''60s'', ''-r'', ''0.1'', ''-s'', ''14'',
      ''-m'', ''internal error'']
   \<and> buildGrpcFaultCmd grpc_fault_14 60 no_grpc_options \<noteq>
     [''xk6-disruptor-agent'', ''grpc'', ''-d'', ''60s'', ''-r'', ''0.1'', ''-s'', ''14'',
      ''-m'', ''internal'', ''error'']"
  by (simp add: buildGrpcFaultCmd_def grpc_fault_14_def no_grpc_options_def
      Sprint_uint_60 Sprint_int32_14 Sprint_float32_tenth gt0_tenth)

end
